theory Spec2Isabelle
  imports Complex_Main
begin

section \<open>The widget catalog of \<^verbatim>\<open>main.py\<close>\<close>

text \<open>
  \<^verbatim>\<open>main.py\<close> is a protocol server with one hard-coded widget. The frozen dataclass
  \<^verbatim>\<open>RickWidget\<close> is a record; the module-level list \<^verbatim>\<open>widgets\<close> and the two lookup
  dictionaries built from it are constants. Names that start with an underscore in the
  source (\<^verbatim>\<open>_RICK_IFRAME\<close>, \<^verbatim>\<open>_tool_meta\<close>, \<^verbatim>\<open>_list_tools\<close>, ...) lose it here.
\<close>

record RickWidget =
  "identifier" :: string
  title :: string
  template_uri :: string
  invoking :: string
  invoked :: string
  html :: string
  response_text :: string

definition RICK_IFRAME :: string where
  "RICK_IFRAME =
     ''<div style=\"display:flex;flex-direction:column;gap:12px;\">\<newline>'' @
     ''  <h2 style=\"margin:0;font-size:16px;\">Never Gonna Give You Up</h2>\<newline>'' @
     ''  <div style=\"position:relative;padding-bottom:56.25%;height:0;overflow:hidden;border-radius:8px;\">\<newline>'' @
     ''    <video controls autoplay style=\"position:absolute;top:0;left:0;width:100%;height:100%;\" '' @
     ''src=\"https://cdn-useast1.kapwing.com/static/templates/rick-roll-video-meme-template-video-1da252ec.mp4\"></video>\<newline>'' @
     ''  </div>\<newline>'' @
     ''</div>\<newline>''"

definition rick_roll :: RickWidget where
  "rick_roll =
     \<lparr>identifier = ''rick-roll'',
      title = ''Rick Roll Player'',
      template_uri = ''ui://widget/rick-roll.html'',
      invoking = ''Loading the Rick Roll...'',
      invoked = ''Enjoy the Rick Roll!'',
      html = RICK_IFRAME,
      response_text = ''Rick Roll widget ready''\<rparr>"

definition widgets :: "RickWidget list" where
  "widgets = [rick_roll]"

text \<open>
  A dict comprehension inserts the entries in list order, a later entry replacing an
  earlier one with the same key.
\<close>

definition WIDGETS_BY_ID :: "string \<rightharpoonup> RickWidget" where
  "WIDGETS_BY_ID = foldl (\<lambda>d w. d(identifier w \<mapsto> w)) Map.empty widgets"

definition WIDGETS_BY_URI :: "string \<rightharpoonup> RickWidget" where
  "WIDGETS_BY_URI = foldl (\<lambda>d w. d(template_uri w \<mapsto> w)) Map.empty widgets"

section \<open>Values of type \<^verbatim>\<open>Any\<close>\<close>

text \<open>
  The tool arguments arrive as a decoded JSON object (\<^verbatim>\<open>Dict[str, Any]\<close>), and the
  metadata the handlers build are dictionaries of strings, booleans and dictionaries. A
  dictionary is the list of its items in insertion order; its keys are distinct. A Python
  float is a finite rational or one of the three special values.
\<close>

datatype pyfloat = Finite rat | PosInf | NegInf | NaN

datatype json =
    JNull
  | JBool bool
  | JInt int
  | JFloat pyfloat
  | JStr string
  | JList "json list"
  | JObj "(string \<times> json) list"

type_synonym dict = "(string \<times> json) list"

text \<open>
  Python prints a list or a dictionary by printing its members, one level of recursion
  for each level of nesting. \<open>depth\<close> counts the levels.
\<close>

fun depth :: "json \<Rightarrow> nat" where
  "depth (JList xs) = Suc (fold max (map depth xs) 0)"
| "depth (JObj kvs) = Suc (fold max (map (\<lambda>kv. depth (snd kv)) kvs) 0)"
| "depth _ = 0"

section \<open>The input model \<^verbatim>\<open>RickToolInput\<close>\<close>

text \<open>
  \<^verbatim>\<open>RickToolInput\<close> is a pydantic (version 2) model with one field,
  \<^verbatim>\<open>autoplay: bool = Field(default=False)\<close>, and the configuration
  \<^verbatim>\<open>ConfigDict(populate_by_name=True, extra="forbid")\<close>. The configuration does not set
  \<^verbatim>\<open>strict\<close>, so \<^verbatim>\<open>model_validate\<close> validates the field in pydantic's default (lax)
  mode. The library is not part of the repository; its documented behaviour for this
  model is written out below.

  In lax mode a \<^verbatim>\<open>bool\<close> field accepts a boolean, the integers 0 and 1, the floats 0.0
  and 1.0, and a string that is \<^verbatim>\<open>"0"\<close>, \<^verbatim>\<open>"1"\<close> or, ignoring ASCII case, one of
  \<^verbatim>\<open>f n no off false t y on yes true\<close>. Everything else is an error of type
  \<^verbatim>\<open>bool_parsing\<close> or \<^verbatim>\<open>bool_type\<close>; the two are not told apart here
  (\<open>bool_error\<close>). A key of the input other than \<^verbatim>\<open>autoplay\<close> is an error of
  type \<^verbatim>\<open>extra_forbidden\<close>. An error carries the location of the offending field and
  the offending input; its message and documentation link are functions of its type and
  are left out. All errors are collected, those of the declared field first.
\<close>

datatype error_type = bool_error | extra_forbidden

record ErrorDetails =
  etype :: error_type
  loc :: "string list"
  input :: json

datatype exn = ValidationError "ErrorDetails list" | RecursionError

record RickToolInput =
  autoplay :: bool

definition to_ascii_lowercase :: "char \<Rightarrow> char" where
  "to_ascii_lowercase c =
     (let n = (of_char c :: nat) in if 65 \<le> n \<and> n \<le> 90 then char_of (n + 32) else c)"

definition eq_ignore_ascii_case :: "string \<Rightarrow> string \<Rightarrow> bool" where
  "eq_ignore_ascii_case s t = (map to_ascii_lowercase s = map to_ascii_lowercase t)"

definition str_as_bool :: "string \<Rightarrow> error_type + bool" where
  "str_as_bool s =
     (if s = ''0'' \<or> eq_ignore_ascii_case s ''f'' \<or> eq_ignore_ascii_case s ''n''
         \<or> eq_ignore_ascii_case s ''no'' \<or> eq_ignore_ascii_case s ''off''
         \<or> eq_ignore_ascii_case s ''false''
      then Inr False
      else if s = ''1'' \<or> eq_ignore_ascii_case s ''t'' \<or> eq_ignore_ascii_case s ''y''
         \<or> eq_ignore_ascii_case s ''on'' \<or> eq_ignore_ascii_case s ''yes''
         \<or> eq_ignore_ascii_case s ''true''
      then Inr True
      else Inl bool_error)"

definition int_as_bool :: "int \<Rightarrow> error_type + bool" where
  "int_as_bool i = (if i = 0 then Inr False else if i = 1 then Inr True else Inl bool_error)"

fun validate_bool :: "json \<Rightarrow> error_type + bool" where
  "validate_bool (JBool b) = Inr b"
| "validate_bool (JStr s) = str_as_bool s"
| "validate_bool (JInt i) = int_as_bool i"
| "validate_bool (JFloat (Finite q)) =
     (if q = 0 then Inr False else if q = 1 then Inr True else Inl bool_error)"
| "validate_bool _ = Inl bool_error"

definition field_errors :: "dict \<Rightarrow> ErrorDetails list" where
  "field_errors args =
     (case map_of args ''autoplay'' of
        None \<Rightarrow> []
      | Some v \<Rightarrow>
          (case validate_bool v of
             Inr b \<Rightarrow> []
           | Inl t \<Rightarrow> [\<lparr>etype = t, loc = [''autoplay''], input = v\<rparr>]))"

definition extra_errors :: "dict \<Rightarrow> ErrorDetails list" where
  "extra_errors args =
     map (\<lambda>(k, v). \<lparr>etype = extra_forbidden, loc = [k], input = v\<rparr>)
       (filter (\<lambda>(k, v). k \<noteq> ''autoplay'') args)"

definition field_value :: "dict \<Rightarrow> bool" where
  "field_value args =
     (case map_of args ''autoplay'' of
        None \<Rightarrow> False
      | Some v \<Rightarrow> (case validate_bool v of Inr b \<Rightarrow> b | Inl t \<Rightarrow> False))"

definition model_validate :: "dict \<Rightarrow> exn + RickToolInput" where
  "model_validate args =
     (let errors = field_errors args @ extra_errors args
      in if errors = [] then Inr \<lparr>autoplay = field_value args\<rparr>
         else Inl (ValidationError errors))"

section \<open>Protocol types\<close>

text \<open>
  The response types of the protocol library, with the fields the source sets. A field
  the source leaves at its default \<^verbatim>\<open>None\<close> is an option. The keyword argument
  \<^verbatim>\<open>_meta\<close> is the field \<open>meta\<close>.
\<close>

record Tool =
  name :: string
  title :: string
  description :: string
  inputSchema :: dict
  meta :: dict

record Resource =
  name :: string
  title :: string
  uri :: string
  description :: string
  mimeType :: string
  meta :: dict

record ResourceTemplate =
  name :: string
  title :: string
  uriTemplate :: string
  description :: string
  mimeType :: string
  meta :: dict

record TextResourceContents =
  uri :: string
  mimeType :: string
  "text" :: string
  title :: "string option"
  meta :: "dict option"

record ReadResourceResult =
  contents :: "TextResourceContents list"
  meta :: "dict option"

record TextContent =
  "type" :: string
  "text" :: string

record EmbeddedResource =
  "type" :: string
  resource :: TextResourceContents

record CallToolResult =
  content :: "TextContent list"
  structuredContent :: "dict option"
  isError :: bool
  meta :: "dict option"

datatype ServerResult =
    ServerResult_Read ReadResourceResult
  | ServerResult_Call CallToolResult

text \<open>
  \<^verbatim>\<open>model_dump(mode="json")\<close> turns the embedded resource into a dictionary of its
  fields, in the order of their declaration, under their field names. A field left at
  \<^verbatim>\<open>None\<close> is kept, with the value \<^verbatim>\<open>None\<close>: the \<^verbatim>\<open>meta\<close> of the resource, and the
  \<^verbatim>\<open>annotations\<close> and \<^verbatim>\<open>meta\<close> of the embedded resource, which the source never sets.
  The extra field \<^verbatim>\<open>title\<close> comes last, when it is given.
\<close>

definition dump_contents :: "TextResourceContents \<Rightarrow> json" where
  "dump_contents c =
     JObj ([(''uri'', JStr (TextResourceContents.uri c)),
            (''mimeType'', JStr (TextResourceContents.mimeType c)),
            (''meta'', (case TextResourceContents.meta c of None \<Rightarrow> JNull | Some m \<Rightarrow> JObj m)),
            (''text'', JStr (TextResourceContents.text c))]
           @ (case TextResourceContents.title c of None \<Rightarrow> [] | Some t \<Rightarrow> [(''title'', JStr t)]))"

definition model_dump :: "EmbeddedResource \<Rightarrow> json" where
  "model_dump e =
     JObj [(''type'', JStr (EmbeddedResource.type e)),
           (''resource'', dump_contents (resource e)),
           (''annotations'', JNull),
           (''meta'', JNull)]"

section \<open>The handlers\<close>

definition TOOL_INPUT_SCHEMA :: dict where
  "TOOL_INPUT_SCHEMA =
     [(''type'', JStr ''object''),
      (''properties'',
         JObj [(''autoplay'',
                  JObj [(''type'', JStr ''boolean''),
                        (''description'', JStr ''Autoplay the video'')])]),
      (''additionalProperties'', JBool False)]"

definition tool_meta :: "RickWidget \<Rightarrow> dict" where
  "tool_meta widget =
     [(''openai/outputTemplate'', JStr (template_uri widget)),
      (''openai/toolInvocation/invoking'', JStr (invoking widget)),
      (''openai/toolInvocation/invoked'', JStr (invoked widget)),
      (''openai/widgetAccessible'', JBool True),
      (''openai/resultCanProduceWidget'', JBool True),
      (''annotations'',
         JObj [(''destructiveHint'', JBool False),
               (''openWorldHint'', JBool False),
               (''readOnlyHint'', JBool True)])]"

text \<open>
  The three list handlers take no input. \<^verbatim>\<open>deepcopy\<close> of the schema is the schema:
  values are not shared here.
\<close>

definition list_tools :: "Tool list" where
  "list_tools =
     map (\<lambda>w. \<lparr>Tool.name = identifier w,
                title = RickWidget.title w,
                description = ''Plays the Rick Astley video in a widget'',
                inputSchema = TOOL_INPUT_SCHEMA,
                meta = tool_meta w\<rparr>) widgets"

definition list_resources :: "Resource list" where
  "list_resources =
     map (\<lambda>w. \<lparr>Resource.name = RickWidget.title w,
                title = RickWidget.title w,
                uri = template_uri w,
                description = ''Rick Roll widget markup'',
                mimeType = ''text/html+skybridge'',
                meta = tool_meta w\<rparr>) widgets"

definition list_resource_templates :: "ResourceTemplate list" where
  "list_resource_templates =
     map (\<lambda>w. \<lparr>ResourceTemplate.name = RickWidget.title w,
                title = RickWidget.title w,
                uriTemplate = template_uri w,
                description = ''Rick Roll widget markup'',
                mimeType = ''text/html+skybridge'',
                meta = tool_meta w\<rparr>) widgets"

text \<open>
  The two request handlers. A Python function returns or raises, so the result is a sum,
  \<open>Inl\<close> the exception that leaves the handler. The argument of
  \<open>handle_read_resource\<close> is \<^verbatim>\<open>str(req.params.uri)\<close>; those of
  \<open>call_tool_request\<close> are \<^verbatim>\<open>req.params.name\<close> and \<^verbatim>\<open>req.params.arguments\<close>,
  which is \<^verbatim>\<open>None\<close> or a dictionary.

  The text of a validation failure is an f-string over \<^verbatim>\<open>exc.errors()\<close>, built in the
  \<^verbatim>\<open>except\<close> block, so an exception raised while printing leaves the handler. Each
  error holds the offending input, and printing a value nested deeper than the
  interpreter's recursion limit allows raises \<^verbatim>\<open>RecursionError\<close>. The deepest nesting
  that is still printed is the parameter \<open>limit\<close>; what is printed is the parameter
  \<open>str_errors\<close>.
\<close>

definition format_errors ::
  "nat \<Rightarrow> (ErrorDetails list \<Rightarrow> string) \<Rightarrow> ErrorDetails list \<Rightarrow> exn + string" where
  "format_errors limit str_errors errors =
     (if list_all (\<lambda>e. depth (input e) \<le> limit) errors then Inr (str_errors errors)
      else Inl RecursionError)"

definition handle_read_resource :: "string \<Rightarrow> exn + ServerResult" where
  "handle_read_resource req_uri =
     (case WIDGETS_BY_URI req_uri of
        None \<Rightarrow>
          Inr (ServerResult_Read
            \<lparr>contents = [], meta = Some [(''error'', JStr ''Unknown resource'')]\<rparr>)
      | Some widget \<Rightarrow>
          Inr (ServerResult_Read
            \<lparr>contents =
               [\<lparr>TextResourceContents.uri = template_uri widget,
                 mimeType = ''text/html+skybridge'',
                 text = html widget,
                 title = None,
                 meta = Some (tool_meta widget)\<rparr>],
             meta = None\<rparr>))"

definition call_tool_request ::
  "nat \<Rightarrow> (ErrorDetails list \<Rightarrow> string) \<Rightarrow> string \<Rightarrow> dict option \<Rightarrow> exn + ServerResult"
  where
  "call_tool_request limit str_errors req_name req_arguments =
     (case WIDGETS_BY_ID req_name of
        None \<Rightarrow>
          Inr (ServerResult_Call
            \<lparr>content = [\<lparr>TextContent.type = ''text'', text = ''Unknown tool''\<rparr>],
             structuredContent = None,
             isError = True,
             meta = None\<rparr>)
      | Some widget \<Rightarrow>
          (let args = (case req_arguments of None \<Rightarrow> [] | Some d \<Rightarrow> if d = [] then [] else d)
           in case model_validate args of
                Inl (ValidationError errors) \<Rightarrow>
                  (case format_errors limit str_errors errors of
                     Inl e \<Rightarrow> Inl e
                   | Inr s \<Rightarrow>
                       Inr (ServerResult_Call
                         \<lparr>content =
                            [\<lparr>TextContent.type = ''text'', text = ''Validation error: '' @ s\<rparr>],
                          structuredContent = None,
                          isError = True,
                          meta = None\<rparr>))
              | Inl RecursionError \<Rightarrow> Inl RecursionError
              | Inr payload \<Rightarrow>
                  (let embedded =
                         \<lparr>EmbeddedResource.type = ''resource'',
                          resource =
                            \<lparr>TextResourceContents.uri = template_uri widget,
                             mimeType = ''text/html+skybridge'',
                             text = html widget,
                             title = Some (RickWidget.title widget),
                             meta = None\<rparr>\<rparr>;
                       meta =
                         [(''openai.com/widget'', model_dump embedded),
                          (''openai/outputTemplate'', JStr (template_uri widget)),
                          (''openai/toolInvocation/invoking'', JStr (invoking widget)),
                          (''openai/toolInvocation/invoked'', JStr (invoked widget)),
                          (''openai/widgetAccessible'', JBool True),
                          (''openai/resultCanProduceWidget'', JBool True)]
                   in Inr (ServerResult_Call
                        \<lparr>content =
                           [\<lparr>TextContent.type = ''text'', text = response_text widget\<rparr>],
                         structuredContent = Some [(''autoplay'', JBool (autoplay payload))],
                         isError = False,
                         meta = Some meta\<rparr>))))"

section \<open>Notions used by the statements\<close>

text \<open>
  The input schema the tool advertises (\<open>TOOL_INPUT_SCHEMA\<close>) allows one property,
  \<^verbatim>\<open>autoplay\<close>, of type boolean, and no other. \<open>valid_arguments\<close> says that of a
  dictionary; \<open>supplied_autoplay\<close> is the boolean a request supplies, \<open>False\<close> when it
  supplies none.
\<close>

definition valid_arguments :: "dict \<Rightarrow> bool" where
  "valid_arguments d =
     list_all (\<lambda>(k, v). k = ''autoplay'' \<and> (case v of JBool b \<Rightarrow> True | _ \<Rightarrow> False)) d"

definition supplied_autoplay :: "dict option \<Rightarrow> bool" where
  "supplied_autoplay a =
     (case a of
        None \<Rightarrow> False
      | Some d \<Rightarrow> (case map_of d ''autoplay'' of Some (JBool b) \<Rightarrow> b | _ \<Rightarrow> False))"

text \<open>Reading a key of a JSON object, and the two kinds of result of a handler.\<close>

definition json_get :: "json \<Rightarrow> string \<Rightarrow> json option" where
  "json_get j k = (case j of JObj d \<Rightarrow> map_of d k | _ \<Rightarrow> None)"

definition call_result :: "exn + ServerResult \<Rightarrow> CallToolResult option" where
  "call_result r = (case r of Inr (ServerResult_Call c) \<Rightarrow> Some c | _ \<Rightarrow> None)"

definition read_result :: "exn + ServerResult \<Rightarrow> ReadResourceResult option" where
  "read_result r = (case r of Inr (ServerResult_Read c) \<Rightarrow> Some c | _ \<Rightarrow> None)"

text \<open>
  The HTML body inside the metadata of a tool result: the \<^verbatim>\<open>text\<close> of the
  \<^verbatim>\<open>resource\<close> of the entry \<^verbatim>\<open>openai.com/widget\<close>.
\<close>

definition embedded_html :: "CallToolResult \<Rightarrow> json option" where
  "embedded_html c =
     Option.bind (Option.bind (Option.bind (CallToolResult.meta c)
       (\<lambda>m. map_of m ''openai.com/widget''))
       (\<lambda>j. json_get j ''resource''))
       (\<lambda>j. json_get j ''text'')"



text \<open>
  The arguments whose values can all be printed, and a value nested \<open>k\<close> lists deep.
\<close>

definition printable :: "nat \<Rightarrow> dict \<Rightarrow> bool" where
  "printable limit d = list_all (\<lambda>kv. depth (snd kv) \<le> limit) d"

fun nest :: "nat \<Rightarrow> json \<Rightarrow> json" where
  "nest 0 j = j"
| "nest (Suc k) j = JList [nest k j]"

text \<open>
  One way of printing a list of errors, for running the handlers on concrete requests:
  the field names of the errors, one after the other.
\<close>

definition str_locs :: "ErrorDetails list \<Rightarrow> string" where
  "str_locs errors = concat (map (\<lambda>e. concat (loc e)) errors)"

section \<open>The lookups and the validator\<close>

lemma WIDGETS_BY_ID_eq:
  "WIDGETS_BY_ID n = (if n = ''rick-roll'' then Some rick_roll else None)"
  by (simp add: WIDGETS_BY_ID_def widgets_def rick_roll_def)

lemma WIDGETS_BY_URI_eq:
  "WIDGETS_BY_URI u = (if u = ''ui://widget/rick-roll.html'' then Some rick_roll else None)"
  by (simp add: WIDGETS_BY_URI_def widgets_def rick_roll_def)

lemma validate_bool_yes: "validate_bool (JStr ''yes'') = Inr True"
  by (simp add: str_as_bool_def eq_ignore_ascii_case_def to_ascii_lowercase_def)


lemma valid_arguments_lookup:
  "valid_arguments d \<Longrightarrow> map_of d ''autoplay'' = Some v \<Longrightarrow> \<exists>b. v = JBool b"
proof -
  assume d: "valid_arguments d" and m: "map_of d ''autoplay'' = Some v"
  from m have "(''autoplay'', v) \<in> set d" by (rule map_of_SomeD)
  with d have "case v of JBool b \<Rightarrow> True | _ \<Rightarrow> False"
    by (fastforce simp: valid_arguments_def list_all_iff)
  then show ?thesis by (cases v) simp_all
qed

lemma valid_arguments_extra: "valid_arguments d \<Longrightarrow> extra_errors d = []"
  by (auto simp: valid_arguments_def extra_errors_def list_all_iff filter_empty_conv)

lemma valid_arguments_field: "valid_arguments d \<Longrightarrow> field_errors d = []"
  by (auto simp: field_errors_def split: option.splits sum.splits dest: valid_arguments_lookup)

lemma valid_arguments_value:
  "valid_arguments d \<Longrightarrow> field_value d = supplied_autoplay (Some d)"
  by (auto simp: field_value_def supplied_autoplay_def split: option.splits sum.splits json.splits
      dest: valid_arguments_lookup)

lemma model_validate_valid:
  "valid_arguments d \<Longrightarrow> model_validate d = Inr \<lparr>autoplay = supplied_autoplay (Some d)\<rparr>"
  by (simp add: model_validate_def valid_arguments_extra valid_arguments_field
      valid_arguments_value)

lemma model_validate_empty: "model_validate [] = Inr \<lparr>autoplay = False\<rparr>"
  by (simp add: model_validate_def field_errors_def extra_errors_def field_value_def)

lemma or_empty:
  "(case a of None \<Rightarrow> [] | Some d \<Rightarrow> if d = [] then [] else d) =
   (case a of None \<Rightarrow> [] | Some d \<Rightarrow> d)"
  by (simp split: option.splits)

lemma depth_nest: "depth (nest k j) = k + depth j"
  by (induction k) simp_all


lemma printable_field_errors:
  "printable L d \<Longrightarrow> list_all (\<lambda>e. depth (input e) \<le> L) (field_errors d)"
proof (cases "map_of d ''autoplay''")
  case None
  then show ?thesis by (simp add: field_errors_def)
next
  case (Some v)
  assume "printable L d"
  moreover from Some have "(''autoplay'', v) \<in> set d" by (rule map_of_SomeD)
  ultimately have "depth v \<le> L" by (fastforce simp: printable_def list_all_iff)
  with Some show ?thesis by (simp add: field_errors_def split: sum.splits)
qed

lemma printable_extra_errors:
  "printable L d \<Longrightarrow> list_all (\<lambda>e. depth (input e) \<le> L) (extra_errors d)"
  by (auto simp: printable_def extra_errors_def list_all_iff)

lemma format_errors_printable:
  "printable L d \<Longrightarrow>
     format_errors L f (field_errors d @ extra_errors d) =
       Inr (f (field_errors d @ extra_errors d))"
  by (simp add: format_errors_def printable_field_errors printable_extra_errors)

section \<open>Calling the tool\<close>

text \<open>
  Claim C1. For every identifier of the catalog, a call with that identifier and valid
  arguments (none, or a dictionary whose only key is \<^verbatim>\<open>autoplay\<close> with a boolean) returns
  a result that is not an error, whose structured content is \<^verbatim>\<open>{"autoplay": b}\<close> with
  \<open>b\<close> the boolean supplied, or false when none is supplied, and whose one content block
  is the text \<open>response_text\<close> of the widget.
\<close>

theorem call_tool_valid:
  assumes "n \<in> set (map identifier widgets)"
    and "case a of None \<Rightarrow> True | Some d \<Rightarrow> valid_arguments d"
  shows "\<exists>w m. WIDGETS_BY_ID n = Some w \<and>
           call_tool_request L f n a =
             Inr (ServerResult_Call
               \<lparr>content = [\<lparr>TextContent.type = ''text'', text = response_text w\<rparr>],
                structuredContent = Some [(''autoplay'', JBool (supplied_autoplay a))],
                isError = False,
                meta = Some m\<rparr>)"
proof -
  from assms(1) have n: "WIDGETS_BY_ID n = Some rick_roll"
    by (simp add: widgets_def rick_roll_def WIDGETS_BY_ID_eq)
  have v: "model_validate (case a of None \<Rightarrow> [] | Some d \<Rightarrow> d) =
             Inr \<lparr>autoplay = supplied_autoplay a\<rparr>"
  proof (cases a)
    case None
    then show ?thesis by (simp add: model_validate_empty supplied_autoplay_def)
  next
    case (Some d)
    with assms(2) show ?thesis by (simp add: model_validate_valid)
  qed
  show ?thesis
    by (simp add: call_tool_request_def n or_empty v)
qed

theorem call_tool_valid_witness:
  "''rick-roll'' \<in> set (map identifier widgets) \<and>
   valid_arguments [(''autoplay'', JBool True)] \<and>
   map_option structuredContent
     (call_result (call_tool_request 1000 str_locs ''rick-roll'' (Some [(''autoplay'', JBool True)])))
     = Some (Some [(''autoplay'', JBool True)])"
proof -
  have 1: "''rick-roll'' \<in> set (map identifier widgets)"
    by (simp add: widgets_def rick_roll_def)
  have 2: "case Some [(''autoplay'', JBool True)] of None \<Rightarrow> True | Some d \<Rightarrow> valid_arguments d"
    by (simp add: valid_arguments_def)
  from call_tool_valid [OF 1 2, of 1000 str_locs] 1 2 show ?thesis
    by (auto simp: call_result_def supplied_autoplay_def)
qed


section \<open>Reading the resource\<close>

text \<open>
  Claim C2, as stated, fails: the template URI of the catalogued widget is
  \<^verbatim>\<open>ui://widget/rick-roll.html\<close>, so \<^verbatim>\<open>uri://widget/rick-roll.html\<close> is not in the
  catalog and reading it gives the empty content list of an unknown resource.
\<close>

theorem read_resource_uri_scheme_counterexample:
  "handle_read_resource ''uri://widget/rick-roll.html'' =
     Inr (ServerResult_Read
       \<lparr>contents = [], meta = Some [(''error'', JStr ''Unknown resource'')]\<rparr>)"
  by (simp add: handle_read_resource_def WIDGETS_BY_URI_eq)

text \<open>
  Claim C2, amended. The template URI of the catalogued widget is
  \<^verbatim>\<open>ui://widget/rick-roll.html\<close> (scheme \<^verbatim>\<open>ui://\<close>), and reading that URI returns a content
  list of length 1 whose entry has the MIME type \<^verbatim>\<open>text/html+skybridge\<close> and, as its
  body, the stored HTML of the widget.
\<close>

theorem read_resource_found:
  "map template_uri widgets = [''ui://widget/rick-roll.html''] \<and>
   handle_read_resource ''ui://widget/rick-roll.html'' =
     Inr (ServerResult_Read
       \<lparr>contents =
          [\<lparr>TextResourceContents.uri = ''ui://widget/rick-roll.html'',
            mimeType = ''text/html+skybridge'',
            text = html rick_roll,
            title = None,
            meta = Some (tool_meta rick_roll)\<rparr>],
        meta = None\<rparr>)"
  by (simp add: handle_read_resource_def WIDGETS_BY_URI_eq widgets_def)
    (simp add: rick_roll_def)

section \<open>Arguments the validator rejects\<close>











section \<open>Unknown names\<close>

text \<open>
  Claim C5. For a name that is not an identifier of the catalog, the call returns, whatever
  the arguments, a result flagged as an error whose one content block is the text
  \<^verbatim>\<open>Unknown tool\<close>.
\<close>

theorem call_tool_unknown:
  assumes "n \<notin> set (map identifier widgets)"
  shows "call_tool_request L f n a =
     Inr (ServerResult_Call
       \<lparr>content = [\<lparr>TextContent.type = ''text'', text = ''Unknown tool''\<rparr>],
        structuredContent = None,
        isError = True,
        meta = None\<rparr>)"
proof -
  from assms have "WIDGETS_BY_ID n = None"
    by (simp add: widgets_def rick_roll_def WIDGETS_BY_ID_eq)
  then show ?thesis by (simp add: call_tool_request_def)
qed

theorem call_tool_unknown_witness:
  "''nonexistent-id'' \<notin> set (map identifier widgets) \<and>
   call_tool_request 1000 str_locs ''nonexistent-id'' (Some []) =
     Inr (ServerResult_Call
       \<lparr>content = [\<lparr>TextContent.type = ''text'', text = ''Unknown tool''\<rparr>],
        structuredContent = None,
        isError = True,
        meta = None\<rparr>)"
proof -
  have 1: "''nonexistent-id'' \<notin> set (map identifier widgets)"
    by (simp add: widgets_def rick_roll_def)
  from call_tool_unknown [OF 1, of 1000 str_locs "Some []"] 1 show ?thesis by simp
qed

text \<open>
  Claim C6. For a URI that is not a template URI of the catalog, reading returns
  normally, with an empty content list and the metadata
  \<^verbatim>\<open>{"error": "Unknown resource"}\<close>.
\<close>

theorem read_resource_unknown:
  assumes "u \<notin> set (map template_uri widgets)"
  shows "handle_read_resource u =
     Inr (ServerResult_Read
       \<lparr>contents = [], meta = Some [(''error'', JStr ''Unknown resource'')]\<rparr>)"
proof -
  from assms have "WIDGETS_BY_URI u = None"
    by (simp add: widgets_def rick_roll_def WIDGETS_BY_URI_eq)
  then show ?thesis by (simp add: handle_read_resource_def)
qed

theorem read_resource_unknown_witness:
  "''uri://nope'' \<notin> set (map template_uri widgets) \<and>
   handle_read_resource ''uri://nope'' =
     Inr (ServerResult_Read
       \<lparr>contents = [], meta = Some [(''error'', JStr ''Unknown resource'')]\<rparr>)"
proof -
  have 1: "''uri://nope'' \<notin> set (map template_uri widgets)"
    by (simp add: widgets_def rick_roll_def)
  from read_resource_unknown [OF 1] 1 show ?thesis by simp
qed

section \<open>Where the annotation triple appears\<close>



lemma model_validate_Inl:
  "model_validate d = Inl e \<Longrightarrow> e = ValidationError (field_errors d @ extra_errors d)"
  by (auto simp: model_validate_def Let_def split: if_splits)



section \<open>A request that is not answered\<close>

text \<open>
  Claim C8 fails on the code. The text of a validation failure is built in the
  \<^verbatim>\<open>except\<close> block, outside the \<^verbatim>\<open>try\<close>, and it prints the rejected input. For the
  known identifier and an \<^verbatim>\<open>autoplay\<close> value that is a list nested one level deeper than
  Python prints, whatever that depth is, the validator rejects the value, the handler
  catches the error, and printing it raises \<^verbatim>\<open>RecursionError\<close>, which leaves the handler.
\<close>

theorem call_tool_raises:
  "call_tool_request L f ''rick-roll'' (Some [(''autoplay'', nest (Suc L) JNull)]) =
     Inl RecursionError"
proof -
  let ?v = "nest (Suc L) JNull"
  have "validate_bool ?v = Inl bool_error" by simp
  then have "model_validate [(''autoplay'', ?v)] =
      Inl (ValidationError [\<lparr>etype = bool_error, loc = [''autoplay''], input = ?v\<rparr>])"
    by (simp add: model_validate_def field_errors_def extra_errors_def del: nest.simps)
  moreover have "depth ?v = Suc L" by (simp add: depth_nest del: nest.simps)
  then have
    "format_errors L f [\<lparr>etype = bool_error, loc = [''autoplay''], input = ?v\<rparr>] =
       Inl RecursionError"
    by (simp add: format_errors_def del: nest.simps)
  ultimately show ?thesis
    by (simp add: call_tool_request_def WIDGETS_BY_ID_eq del: nest.simps)
qed

text \<open>
  What remains of totality: the list handlers and the read handler always return, and
  the call handler returns whenever the values of its arguments can be printed.
\<close>

lemma handlers_return:
  assumes "case a of None \<Rightarrow> True | Some d \<Rightarrow> printable L d"
  shows "length list_tools = length widgets \<and>
   length list_resources = length widgets \<and>
   length list_resource_templates = length widgets \<and>
   (\<exists>r. handle_read_resource u = Inr (ServerResult_Read r) \<and>
      (contents r = [] \<and> ReadResourceResult.meta r = Some [(''error'', JStr ''Unknown resource'')]
       \<or> length (contents r) = 1 \<and> ReadResourceResult.meta r = None)) \<and>
   (\<exists>c. call_tool_request L f n a = Inr (ServerResult_Call c) \<and>
      length (content c) = 1 \<and>
      isError c = (structuredContent c = None) \<and>
      isError c = (CallToolResult.meta c = None))"
proof -
  have r: "\<exists>r. handle_read_resource u = Inr (ServerResult_Read r) \<and>
      (contents r = [] \<and> ReadResourceResult.meta r = Some [(''error'', JStr ''Unknown resource'')]
       \<or> length (contents r) = 1 \<and> ReadResourceResult.meta r = None)"
    by (cases "WIDGETS_BY_URI u") (simp_all add: handle_read_resource_def)
  have c: "\<exists>c. call_tool_request L f n a = Inr (ServerResult_Call c) \<and>
      length (content c) = 1 \<and>
      isError c = (structuredContent c = None) \<and>
      isError c = (CallToolResult.meta c = None)"
  proof (cases "WIDGETS_BY_ID n")
    case None
    then show ?thesis by (simp add: call_tool_request_def)
  next
    case (Some w)
    obtain args where args: "args = (case a of None \<Rightarrow> [] | Some d \<Rightarrow> if d = [] then [] else d)"
      by simp
    with assms have p: "printable L args"
      by (cases a) (simp_all add: printable_def)
    show ?thesis
    proof (cases "model_validate args")
      case (Inl e)
      then have "model_validate args = Inl (ValidationError (field_errors args @ extra_errors args))"
        by (simp add: model_validate_Inl)
      then show ?thesis
        by (simp add: call_tool_request_def Some args [symmetric] format_errors_printable [OF p])
    next
      case (Inr p')
      then show ?thesis
        by (simp add: call_tool_request_def Some args [symmetric])
    qed
  qed
  from r c show ?thesis
    by (simp add: list_tools_def list_resources_def list_resource_templates_def)
qed

section \<open>The listings\<close>

text \<open>
  Claim C9. The catalog has one entry, and the tool listing and the resource listing are
  each the one descriptor made from it: name the identifier for the tool; URI the
  template URI and MIME type \<^verbatim>\<open>text/html+skybridge\<close> for the resource. The handlers take no
  input and read only the constant catalog, so every call returns this same list.
\<close>

theorem list_tools_resources:
  "widgets = [rick_roll] \<and>
   list_tools =
     [\<lparr>Tool.name = identifier rick_roll,
       title = RickWidget.title rick_roll,
       description = ''Plays the Rick Astley video in a widget'',
       inputSchema = TOOL_INPUT_SCHEMA,
       meta = tool_meta rick_roll\<rparr>] \<and>
   list_resources =
     [\<lparr>Resource.name = RickWidget.title rick_roll,
       title = RickWidget.title rick_roll,
       uri = template_uri rick_roll,
       description = ''Rick Roll widget markup'',
       mimeType = ''text/html+skybridge'',
       meta = tool_meta rick_roll\<rparr>]"
  by (simp add: list_tools_def list_resources_def widgets_def)

section \<open>The HTML of a call is the HTML of the resource\<close>

text \<open>
  Claim C10. Whenever a call for a known identifier returns a result that is not an
  error, whatever its arguments, the HTML body embedded in the metadata of the result is
  the stored \<open>html\<close> of the widget, which is also the body the read handler returns for
  the widget's template URI.
\<close>

theorem call_tool_html:
  assumes "WIDGETS_BY_ID n = Some w"
    and "call_tool_request L f n a = Inr (ServerResult_Call c)"
    and "\<not> isError c"
  shows "embedded_html c = Some (JStr (html w)) \<and>
    (\<exists>r. handle_read_resource (template_uri w) = Inr (ServerResult_Read r) \<and>
       map TextResourceContents.text (contents r) = [html w])"
proof -
  from assms(1) have w: "w = rick_roll"
    by (simp add: WIDGETS_BY_ID_eq split: if_splits)
  have u: "WIDGETS_BY_URI (template_uri w) = Some w"
    unfolding w by (simp add: WIDGETS_BY_URI_eq) (simp add: rick_roll_def)
  obtain args where args: "args = (case a of None \<Rightarrow> [] | Some d \<Rightarrow> if d = [] then [] else d)"
    by simp
  have "embedded_html c = Some (JStr (html w))"
  proof (cases "model_validate args")
    case (Inl e)
    with assms show ?thesis
      by (cases e) (auto simp: call_tool_request_def args [symmetric] split: sum.splits)
  next
    case (Inr p)
    with assms(1,2) show ?thesis
      by (auto simp: call_tool_request_def args [symmetric] embedded_html_def model_dump_def
          dump_contents_def json_get_def)
  qed
  with u show ?thesis by (simp add: handle_read_resource_def)
qed

theorem call_tool_html_witness:
  "WIDGETS_BY_ID ''rick-roll'' = Some rick_roll \<and>
   map_option isError
     (call_result (call_tool_request 1000 str_locs ''rick-roll'' (Some [(''autoplay'', JBool True)])))
     = Some False \<and>
   Option.bind
     (call_result (call_tool_request 1000 str_locs ''rick-roll'' (Some [(''autoplay'', JBool True)])))
     embedded_html = Some (JStr RICK_IFRAME) \<and>
   map_option (map TextResourceContents.text \<circ> contents)
     (read_result (handle_read_resource ''ui://widget/rick-roll.html''))
     = Some [RICK_IFRAME]"
proof -
  let ?r = "call_tool_request 1000 str_locs ''rick-roll'' (Some [(''autoplay'', JBool True)])"
  define c where "c =
     \<lparr>content = [\<lparr>TextContent.type = ''text'', text = response_text rick_roll\<rparr>],
      structuredContent = Some [(''autoplay'', JBool True)],
      isError = False,
      meta = Some
        [(''openai.com/widget'',
            model_dump
              \<lparr>EmbeddedResource.type = ''resource'',
               resource =
                 \<lparr>TextResourceContents.uri = template_uri rick_roll,
                  mimeType = ''text/html+skybridge'',
                  text = html rick_roll,
                  title = Some (RickWidget.title rick_roll),
                  meta = None\<rparr>\<rparr>),
         (''openai/outputTemplate'', JStr (template_uri rick_roll)),
         (''openai/toolInvocation/invoking'', JStr (invoking rick_roll)),
         (''openai/toolInvocation/invoked'', JStr (invoked rick_roll)),
         (''openai/widgetAccessible'', JBool True),
         (''openai/resultCanProduceWidget'', JBool True)]\<rparr>"
  have v: "model_validate [(''autoplay'', JBool True)] = Inr \<lparr>autoplay = True\<rparr>"
    by (simp add: model_validate_def field_errors_def extra_errors_def field_value_def)
  have 1: "WIDGETS_BY_ID ''rick-roll'' = Some rick_roll"
    by (simp add: WIDGETS_BY_ID_eq)
  have 2: "?r = Inr (ServerResult_Call c)"
    by (simp add: call_tool_request_def 1 v c_def)
  have 3: "\<not> isError c"
    by (simp add: c_def)
  have t: "template_uri rick_roll = ''ui://widget/rick-roll.html''"
    by (simp add: rick_roll_def)
  have h: "html rick_roll = RICK_IFRAME"
    by (simp add: rick_roll_def)
  from call_tool_html [OF 1 2 3] obtain r where
    e: "embedded_html c = Some (JStr RICK_IFRAME)" and
    r: "handle_read_resource ''ui://widget/rick-roll.html'' = Inr (ServerResult_Read r)"
       "map TextResourceContents.text (contents r) = [RICK_IFRAME]"
    unfolding t h by (elim conjE exE)
  have a: "map_option isError (call_result ?r) = Some False"
    unfolding 2 using 3 by (simp add: call_result_def)
  have b: "Option.bind (call_result ?r) embedded_html = Some (JStr RICK_IFRAME)"
    unfolding 2 using e by (simp add: call_result_def)
  have c: "map_option (map TextResourceContents.text \<circ> contents)
     (read_result (handle_read_resource ''ui://widget/rick-roll.html'')) = Some [RICK_IFRAME]"
    unfolding r(1) using r(2) by (simp add: read_result_def)
  from 1 a b c show ?thesis by (intro conjI)
qed

end
